theory Spec2Isabelle
  imports Main
begin

section \<open>Values, errors and effects\<close>

text \<open>
  The adapter is TypeScript running on Node. What a function can throw is an \<open>error\<close>
  value; a function that can throw returns \<open>error + 'a\<close> with \<open>Inl\<close> for the throw.
  \<open>TypeError\<close> carries the expression whose evaluation failed (a property read on
  \<open>undefined\<close>, \<open>Buffer.from(undefined)\<close>); \<open>SyntaxError\<close> is what \<open>new RegExp\<close> throws on
  a malformed pattern; \<open>ApiError\<close> is the rejection of a promise returned by the Octokit
  client, which lives outside this repository.
\<close>

datatype error =
    MissingApiToken
  | NotAuthenticated
  | CannotUpdateMissingId
  | CannotDeleteMissingActivityId
  | TimingSafeEqualLength
  | TypeError string
  | SyntaxError string
  | ApiError string

text \<open>
  Identifiers are dynamically typed in the source: an activity id is a comment number or a
  repository name, a conversation id is an issue number or the delivery header.
\<close>

datatype jsval = Undefined | Null | Num int | Str string

fun truthy :: "jsval \<Rightarrow> bool" where
  "truthy Undefined = False"
| "truthy Null = False"
| "truthy (Num n) = (n \<noteq> 0)"
| "truthy (Str s) = (s \<noteq> [])"

text \<open>An optional string field: absent (\<open>undefined\<close>) and the empty string are falsy.\<close>

fun truthy_str :: "string option \<Rightarrow> bool" where
  "truthy_str None = False"
| "truthy_str (Some s) = (s \<noteq> [])"

text \<open>The calls made on the HTTP response object, in order.\<close>

datatype res_effect = ResStatus int | ResSend string | ResEnd

section \<open>GitHub webhook payload\<close>

text \<open>
  The fields of the webhook body that the adapter and the middlewares read
  (\<open>comment\<close>, \<open>issue\<close>, \<open>repository\<close>, \<open>sender\<close>, \<open>action\<close>, \<open>number\<close>), and the
  \<open>botkitEventType\<close> tag that the middlewares write into the same object.
\<close>

record gh_user =
  user_id :: int
  user_login :: string
  user_type :: string

record gh_comment =
  comment_id :: int
  comment_body :: string
  comment_updated_at :: string
  comment_user :: gh_user

record gh_issue =
  issue_number :: int

record gh_repository =
  full_name :: string

record payload =
  comment :: "gh_comment option"
  issue :: "gh_issue option"
  repository :: "gh_repository option"
  sender :: "gh_user option"
  action :: "string option"
  number :: "int option"
  botkitEventType :: "string option"

section \<open>Adapter state and requests\<close>

text \<open>
  \<open>GithubAdapterOptions\<close> (both fields optional), the private fields \<open>octokit\<close> and
  \<open>identity\<close> of \<open>GithubAdapter\<close>, and a counter of the \<open>Octokit\<close> objects constructed
  so far, which gives every constructed client its object identity.
\<close>

record octokit_client =
  auth :: string
  userAgent :: string
  object_id :: nat

record identity =
  identity_user_id :: int
  identity_login :: string

record adapter =
  webhookSecret :: "string option"
  githubToken :: "string option"
  octokit :: "octokit_client option"
  bot_identity :: "identity option"
  constructed :: nat

text \<open>
  A request as Restify or Express hands it over: \<open>req.rawBody\<close>, \<open>req.body\<close> and
  \<open>req.header(name)\<close>. Node decodes header bytes as Latin-1, so every character of a
  header value is a code point below 256, which is what \<open>char\<close> holds.
\<close>

record request =
  rawBody :: "string option"
  body :: "payload option"
  header :: "string \<Rightarrow> string option"

section \<open>Signature verification\<close>

text \<open>
  \<open>Buffer.from(s)\<close> encodes the string as UTF-8: one byte below 128, two bytes for
  the code points 128 to 255.
\<close>

definition utf8_char :: "char \<Rightarrow> nat list" where
  "utf8_char c =
     (let n = (of_char c :: nat)
      in if n < 128 then [n] else [192 + n div 64, 128 + n mod 64])"

definition Buffer_from :: "string \<Rightarrow> nat list" where
  "Buffer_from s = concat (map utf8_char s)"

text \<open>
  \<open>crypto.timingSafeEqual\<close> throws when its two buffers differ in byte length and
  otherwise compares them.
\<close>

definition timingSafeEqual :: "nat list \<Rightarrow> nat list \<Rightarrow> error + bool" where
  "timingSafeEqual a b =
     (if length a \<noteq> length b then Inl TimingSafeEqualLength else Inr (a = b))"

text \<open>
  The closure \<open>validSignature\<close>: \<open>Buffer.from(messageHash)\<close> throws a TypeError when
  the header is absent.
\<close>

definition validSignature :: "string option \<Rightarrow> string \<Rightarrow> error + bool" where
  "validSignature messageHash hash =
     (case messageHash of
        None \<Rightarrow> Inl (TypeError ''Buffer.from(messageHash)'')
      | Some h \<Rightarrow> timingSafeEqual (Buffer_from h) (Buffer_from hash))"

text \<open>
  \<open>verifySignature\<close>. The parameter \<open>hmac\<close> stands for
  \<open>crypto.createHmac('sha1', secret).update(body).digest('hex')\<close>, a function of Node's
  crypto library. The result is the returned boolean with the calls made on \<open>res\<close>.
\<close>

definition verifySignature ::
  "(string \<Rightarrow> string \<Rightarrow> string) \<Rightarrow> adapter \<Rightarrow> request \<Rightarrow> error + (bool \<times> res_effect list)" where
  "verifySignature hmac this req =
     (if truthy_str (webhookSecret this) \<and> truthy_str (rawBody req) then
        (case (webhookSecret this, rawBody req) of
           (Some secret, Some basestring) \<Rightarrow>
             (let messageHash = header req ''X-Hub-Signature'';
                  hash = ''sha1='' @ hmac secret basestring
              in case validSignature messageHash hash of
                   Inl err \<Rightarrow> Inl err
                 | Inr valid \<Rightarrow>
                     if \<not> valid then Inr (False, [ResStatus 401]) else Inr (True, []))
         | _ \<Rightarrow> Inr (True, []))
      else Inr (True, []))"

section \<open>Activities\<close>

text \<open>
  The BotBuilder \<open>Activity\<close> as the adapter fills it. \<open>ActivityTypes.Message\<close> and
  \<open>ActivityTypes.Event\<close> are the two kinds the adapter produces; \<open>OtherType\<close> is any
  other value of the \<open>type\<close> field of an outgoing activity.
\<close>

datatype activity_type = Message | Event | OtherType string

datatype role_type = User | Bot

record channel_account =
  account_id :: jsval
  account_role :: "role_type option"

record conversation_account =
  isGroup :: "bool option"
  conversationType :: "string option"
  conversation_id :: jsval
  repo :: "string option"

datatype date = Date_of string | Date_now

record activity =
  activity_type :: activity_type
  activity_id :: jsval
  timestamp :: "date option"
  channelData :: "payload option"
  channelId :: string
  from_account :: channel_account
  conversation :: "conversation_account option"
  recipient :: channel_account
  activity_text :: "string option"
  label :: "string option"

text \<open>
  A \<open>TurnContext\<close>: the activity and the two entries of \<open>turnState\<close> that
  \<open>processActivity\<close> reads back.
\<close>

record turn_context =
  turn_activity :: activity
  httpStatus :: int
  httpBody :: "string option"

section \<open>The GitHub API client\<close>

text \<open>
  A promise returned by the Octokit client, once settled. The client's methods are
  parameters of the functions that call them.
\<close>

datatype 'a promise = Rejected error | Resolved 'a

record authenticated_user =
  data_user_id :: int
  data_login :: "string option"

text \<open>
  \<open>getAPI\<close>. The source reads \<open>this.octokit\<close> and never assigns it: the \<open>else\<close>
  branch returns the new client without storing it. The only state that changes is the
  number of clients constructed.
\<close>

definition getAPI :: "adapter \<Rightarrow> (error + octokit_client) \<times> adapter" where
  "getAPI this =
     (case octokit this of
        Some client \<Rightarrow> (Inr client, this)
      | None \<Rightarrow>
          (case githubToken this of
             None \<Rightarrow> (Inl MissingApiToken, this)
           | Some token \<Rightarrow>
               if token = [] then (Inl MissingApiToken, this)
               else (Inr \<lparr>auth = token, userAgent = ''Botkit'', object_id = constructed this\<rparr>,
                     this\<lparr>constructed := Suc (constructed this)\<rparr>)))"

text \<open>
  \<open>getBotUserFromAPI\<close>, with \<open>octokit.users.getAuthenticated\<close> as the parameter
  \<open>getAuthenticated\<close>; its answer \<open>None\<close> is a response without \<open>data\<close>.
\<close>

definition getBotUserFromAPI ::
  "(octokit_client \<Rightarrow> authenticated_user option promise) \<Rightarrow> adapter
     \<Rightarrow> (error + identity) \<times> adapter" where
  "getBotUserFromAPI getAuthenticated this =
     (case bot_identity this of
        Some ident \<Rightarrow> (Inr ident, this)
      | None \<Rightarrow>
          (case getAPI this of
             (Inl err, this') \<Rightarrow> (Inl err, this')
           | (Inr client, this') \<Rightarrow>
               (case getAuthenticated client of
                  Rejected err \<Rightarrow> (Inl err, this')
                | Resolved None \<Rightarrow> (Inl NotAuthenticated, this')
                | Resolved (Some user) \<Rightarrow>
                    (case data_login user of
                       None \<Rightarrow> (Inl NotAuthenticated, this')
                     | Some login \<Rightarrow>
                         if login = [] then (Inl NotAuthenticated, this')
                         else
                           (let ident = \<lparr>identity_user_id = data_user_id user,
                                         identity_login = login\<rparr>
                            in (Inr ident, this'\<lparr>bot_identity := Some ident\<rparr>))))))"

section \<open>Receiving a webhook\<close>

text \<open>A property read on a value that may be \<open>undefined\<close>.\<close>

definition read_prop :: "string \<Rightarrow> 'a option \<Rightarrow> error + 'a" where
  "read_prop expr v = (case v of None \<Rightarrow> Inl (TypeError expr) | Some x \<Rightarrow> Inr x)"

definition role_of :: "string \<Rightarrow> role_type" where
  "role_of user_type_field = (if user_type_field = ''User'' then User else Bot)"

text \<open>The activity of the \<open>issue_comment\<close> case, once the comment is known not to be the bot's.\<close>

definition issue_comment_activity ::
  "identity \<Rightarrow> string \<Rightarrow> payload \<Rightarrow> gh_comment \<Rightarrow> error + activity" where
  "issue_comment_activity user eventType event c =
     (case read_prop ''event.issue'' (issue event) of
        Inl err \<Rightarrow> Inl err
      | Inr i \<Rightarrow>
          (case read_prop ''event.repository'' (repository event) of
             Inl err \<Rightarrow> Inl err
           | Inr r \<Rightarrow>
               Inr \<lparr>activity_type = Message,
                    activity_id = Num (comment_id c),
                    timestamp = Some (Date_of (comment_updated_at c)),
                    channelData = Some event,
                    channelId = ''github'',
                    from_account =
                      \<lparr>account_id = Str (user_login (comment_user c)),
                       account_role = Some (role_of (user_type (comment_user c)))\<rparr>,
                    conversation =
                      Some \<lparr>isGroup = Some True,
                            conversationType = Some eventType,
                            conversation_id = Num (issue_number i),
                            repo = Some (full_name r)\<rparr>,
                    recipient =
                      \<lparr>account_id = Str (identity_login user), account_role = Some Bot\<rparr>,
                    activity_text = Some (comment_body c),
                    label = Some eventType\<rparr>))"

text \<open>The activity of the \<open>default\<close> case.\<close>

definition jsval_of_header :: "string option \<Rightarrow> jsval" where
  "jsval_of_header h = (case h of None \<Rightarrow> Undefined | Some s \<Rightarrow> Str s)"

definition event_activity ::
  "string option \<Rightarrow> string option \<Rightarrow> payload \<Rightarrow> error + activity" where
  "event_activity eventType delivery event =
     (case read_prop ''event.repository'' (repository event) of
        Inl err \<Rightarrow> Inl err
      | Inr r \<Rightarrow>
          (case read_prop ''event.sender'' (sender event) of
             Inl err \<Rightarrow> Inl err
           | Inr s \<Rightarrow>
               Inr \<lparr>activity_type = Event,
                    activity_id = Str (full_name r),
                    timestamp = Some Date_now,
                    channelData = Some event,
                    channelId = ''github'',
                    from_account =
                      \<lparr>account_id = Str (user_login s),
                       account_role = Some (role_of (user_type s))\<rparr>,
                    conversation =
                      Some \<lparr>isGroup = None, conversationType = None,
                            conversation_id = jsval_of_header delivery, repo = None\<rparr>,
                    recipient = \<lparr>account_id = Null, account_role = None\<rparr>,
                    activity_text = None,
                    label = eventType\<rparr>))"

text \<open>
  What \<open>processActivity\<close> did: the error it threw if any, the context it handed to
  \<open>this.runMiddleware(context, logic)\<close> (\<open>None\<close> when the middleware and the bot logic
  were never run), the calls on \<open>res\<close>, and the adapter afterwards.
\<close>

record process_result =
  thrown :: "error option"
  dispatched :: "turn_context option"
  response :: "res_effect list"
  adapter_after :: adapter

text \<open>
  The end of \<open>processActivity\<close>: \<open>runMiddleware\<close> (BotBuilder's, running the bound
  middleware and then the bot logic) is the parameter \<open>run\<close>; it returns the context as
  the turn left it, or throws.
\<close>

definition run_turn ::
  "(turn_context \<Rightarrow> error + turn_context) \<Rightarrow> adapter \<Rightarrow> activity \<Rightarrow> process_result" where
  "run_turn run this a =
     (let context = \<lparr>turn_activity = a, httpStatus = 200, httpBody = None\<rparr>
      in case run context of
           Inl err \<Rightarrow>
             \<lparr>thrown = Some err, dispatched = Some context, response = [],
              adapter_after = this\<rparr>
         | Inr context' \<Rightarrow>
             \<lparr>thrown = None, dispatched = Some context,
              response =
                ResStatus (httpStatus context') #
                (case httpBody context' of
                   None \<Rightarrow> [ResEnd]
                 | Some b \<Rightarrow> if b = [] then [ResEnd] else [ResSend b]),
              adapter_after = this\<rparr>)"

definition throws :: "error \<Rightarrow> res_effect list \<Rightarrow> adapter \<Rightarrow> process_result" where
  "throws err effects this =
     \<lparr>thrown = Some err, dispatched = None, response = effects, adapter_after = this\<rparr>"

definition returns_early :: "res_effect list \<Rightarrow> adapter \<Rightarrow> process_result" where
  "returns_early effects this =
     \<lparr>thrown = None, dispatched = None, response = effects, adapter_after = this\<rparr>"

definition processActivity ::
  "(string \<Rightarrow> string \<Rightarrow> string) \<Rightarrow> (octokit_client \<Rightarrow> authenticated_user option promise)
     \<Rightarrow> (turn_context \<Rightarrow> error + turn_context) \<Rightarrow> adapter \<Rightarrow> request \<Rightarrow> process_result" where
  "processActivity hmac getAuthenticated run this req =
     (case verifySignature hmac this req of
        Inl err \<Rightarrow> throws err [] this
      | Inr (False, effects) \<Rightarrow> returns_early effects this
      | Inr (True, effects) \<Rightarrow>
          (let eventType = header req ''X-Github-Event''
           in case getBotUserFromAPI getAuthenticated this of
                (Inl err, this') \<Rightarrow> throws err effects this'
              | (Inr user, this') \<Rightarrow>
                  if eventType = Some ''issue_comment'' then
                    (case read_prop ''event'' (body req) of
                       Inl err \<Rightarrow> throws err effects this'
                     | Inr event \<Rightarrow>
                         (case read_prop ''event.comment'' (comment event) of
                            Inl err \<Rightarrow> throws err effects this'
                          | Inr c \<Rightarrow>
                              if identity_user_id user = user_id (comment_user c)
                              then returns_early effects this'
                              else
                                (case issue_comment_activity user ''issue_comment'' event c of
                                   Inl err \<Rightarrow> throws err effects this'
                                 | Inr a \<Rightarrow> run_turn run this' a)))
                  else
                    (case read_prop ''event'' (body req) of
                       Inl err \<Rightarrow> throws err effects this'
                     | Inr event \<Rightarrow>
                         (case event_activity eventType (header req ''X-Github-Delivery'') event of
                            Inl err \<Rightarrow> throws err effects this'
                          | Inr a \<Rightarrow> run_turn run this' a))))"

section \<open>Sending, updating and deleting\<close>

text \<open>\<open>String.prototype.split\<close> on a one-character separator: never the empty array.\<close>

fun split :: "char \<Rightarrow> string \<Rightarrow> string list" where
  "split sep [] = [[]]"
| "split sep (c # cs) =
     (if c = sep then [] # split sep cs
      else (case split sep cs of [] \<Rightarrow> [[c]] | part # parts \<Rightarrow> (c # part) # parts))"

text \<open>An array read \<open>xs[i]\<close>: \<open>undefined\<close> past the end.\<close>

definition index :: "'a list \<Rightarrow> nat \<Rightarrow> 'a option" where
  "index xs i = (if i < length xs then Some (xs ! i) else None)"

record github_target =
  target_type :: "string option"
  target_id :: jsval
  target_owner :: "string option"
  target_repo :: "string option"

record github_message =
  message_activityId :: jsval
  target :: "github_target option"
  message_text :: "string option"

text \<open>
  \<open>activityToGithub\<close>. A conversation without \<open>repo\<close> makes \<open>repo.split\<close> a call on
  \<open>undefined\<close>.
\<close>

definition activityToGithub :: "activity \<Rightarrow> error + github_message" where
  "activityToGithub a =
     (let text_field = (if truthy_str (activity_text a) then activity_text a else None)
      in case conversation a of
           None \<Rightarrow>
             Inr \<lparr>message_activityId = activity_id a, target = None, message_text = text_field\<rparr>
         | Some conv \<Rightarrow>
             (case read_prop ''activity.conversation.repo'' (repo conv) of
                Inl err \<Rightarrow> Inl err
              | Inr r \<Rightarrow>
                  (let repoParts = split (CHR ''/'') r
                   in Inr \<lparr>message_activityId = activity_id a,
                           target =
                             Some \<lparr>target_type = conversationType conv,
                                   target_id = conversation_id conv,
                                   target_owner = index repoParts 0,
                                   target_repo = index repoParts 1\<rparr>,
                           message_text = text_field\<rparr>)))"

text \<open>
  The parameters of \<open>octokit.issues.createComment\<close>, \<open>updateComment\<close> and
  \<open>deleteComment\<close> (\<open>number_param\<close> is \<open>issue_number\<close> or \<open>comment_id\<close>), and the part
  of a response the adapter reads.
\<close>

record comment_params =
  owner_param :: "string option"
  repo_param :: "string option"
  number_param :: jsval
  body_param :: "string option"

record octokit_response =
  status :: int
  data_id :: int

text \<open>
  What \<open>console.error\<close> and \<open>console.log\<close> print, and the value of the variable
  \<open>result\<close> after the \<open>switch\<close>: a response, the message for an unsupported target (a
  string), or in \<open>deleteActivity\<close> the promise itself, since that call is not awaited.
  Neither a string nor a promise has a \<open>status\<close>, and \<open>undefined < 300\<close> is false.
\<close>

datatype call_result =
    Response octokit_response
  | Unsupported string
  | Pending "octokit_response promise"

datatype log_entry =
    Console_error string error
  | Console_error_result string call_result
  | Console_log call_result

fun status_lt_300 :: "call_result \<Rightarrow> bool" where
  "status_lt_300 (Response r) = (status r < 300)"
| "status_lt_300 (Unsupported s) = False"
| "status_lt_300 (Pending p) = False"

definition show_type :: "string option \<Rightarrow> string" where
  "show_type t = (case t of None \<Rightarrow> ''undefined'' | Some s \<Rightarrow> s)"

record resource_response =
  response_id :: int
  response_activityId :: jsval
  response_conversation :: "conversation_account option"

text \<open>
  The \<open>try\<close> block of \<open>sendActivities\<close> for the activity at position \<open>a\<close>; the
  parameter \<open>createComment a\<close> is how the API answers the call made for that activity.
\<close>

definition send_try ::
  "(nat \<Rightarrow> octokit_client \<Rightarrow> comment_params \<Rightarrow> octokit_response promise) \<Rightarrow> nat \<Rightarrow> adapter
     \<Rightarrow> activity \<Rightarrow> github_message \<Rightarrow> (error + call_result) \<times> adapter" where
  "send_try createComment a this act message =
     (case getAPI this of
        (Inl err, this') \<Rightarrow> (Inl err, this')
      | (Inr client, this') \<Rightarrow>
          (case read_prop ''message.target'' (target message) of
             Inl err \<Rightarrow> (Inl err, this')
           | Inr tgt \<Rightarrow>
               if target_type tgt = Some ''issue_comment'' \<or>
                  target_type tgt = Some ''pull_request'' \<or>
                  target_type tgt = Some ''issues''
               then
                 (case createComment a client
                         \<lparr>owner_param = target_owner tgt, repo_param = target_repo tgt,
                          number_param = target_id tgt, body_param = message_text message\<rparr> of
                    Rejected err \<Rightarrow> (Inl err, this')
                  | Resolved r \<Rightarrow> (Inr (Response r), this'))
               else
                 (Inr (Unsupported
                         (''Unsupported target type ['' @ show_type (target_type tgt) @
                          ''] (must be one of [issue_comment,issues,pull_request])'')),
                  this')))"

text \<open>
  One iteration of the loop: \<open>Inl\<close> when \<open>activityToGithub\<close>, which is called before
  the \<open>try\<close>, throws; otherwise the response record pushed, if any, and what was logged.
\<close>

definition send_one ::
  "(nat \<Rightarrow> octokit_client \<Rightarrow> comment_params \<Rightarrow> octokit_response promise) \<Rightarrow> nat \<Rightarrow> adapter
     \<Rightarrow> activity \<Rightarrow> error + (resource_response list \<times> log_entry list \<times> adapter)" where
  "send_one createComment a this act =
     (if activity_type act = Message then
        (case activityToGithub act of
           Inl err \<Rightarrow> Inl err
         | Inr message \<Rightarrow>
             (case send_try createComment a this act message of
                (Inl err, this') \<Rightarrow>
                  Inr ([], [Console_error ''Error sending activity to API:'' err], this')
              | (Inr result, this') \<Rightarrow>
                  (case result of
                     Response r \<Rightarrow>
                       if status r < 300 then
                         Inr ([\<lparr>response_id = data_id r,
                                 response_activityId = activity_id act,
                                 response_conversation = conversation act\<rparr>], [], this')
                       else
                         Inr ([], [Console_error_result ''Error sending activity to API:'' result],
                              this')
                   | _ \<Rightarrow>
                       Inr ([], [Console_error_result ''Error sending activity to API:'' result],
                            this'))))
      else Inr ([], [], this))"

text \<open>
  The loop of \<open>sendActivities\<close> from position \<open>a\<close> on, with the responses and the log
  so far; then \<open>sendActivities\<close> itself.
\<close>

fun send_from ::
  "(nat \<Rightarrow> octokit_client \<Rightarrow> comment_params \<Rightarrow> octokit_response promise) \<Rightarrow> nat
     \<Rightarrow> activity list \<Rightarrow> resource_response list \<times> log_entry list \<times> adapter
     \<Rightarrow> error + (resource_response list \<times> log_entry list \<times> adapter)" where
  "send_from createComment a [] acc = Inr acc"
| "send_from createComment a (act # acts) (responses, logs, this) =
     (case send_one createComment a this act of
        Inl err \<Rightarrow> Inl err
      | Inr (pushed, logged, this') \<Rightarrow>
          send_from createComment (Suc a) acts (responses @ pushed, logs @ logged, this'))"

definition sendActivities ::
  "(nat \<Rightarrow> octokit_client \<Rightarrow> comment_params \<Rightarrow> octokit_response promise) \<Rightarrow> adapter
     \<Rightarrow> activity list \<Rightarrow> error + (resource_response list \<times> log_entry list \<times> adapter)" where
  "sendActivities createComment this activities =
     send_from createComment 0 activities ([], [], this)"

text \<open>
  What \<open>updateActivity\<close> and \<open>deleteActivity\<close> did: the error thrown to the caller if
  any, the console output, the rejections of promises nobody awaited, the adapter.
\<close>

record call_outcome =
  raised :: "error option"
  console :: "log_entry list"
  unhandled :: "error list"
  adapter_then :: adapter

text \<open>\<open>updateActivity\<close>: the whole body, \<open>activityToGithub\<close> included, is inside the \<open>try\<close>.\<close>

definition update_try ::
  "(octokit_client \<Rightarrow> comment_params \<Rightarrow> octokit_response promise) \<Rightarrow> adapter \<Rightarrow> activity
     \<Rightarrow> (error + log_entry list) \<times> adapter" where
  "update_try updateComment this act =
     (case activityToGithub act of
        Inl err \<Rightarrow> (Inl err, this)
      | Inr message \<Rightarrow>
          (case getAPI this of
             (Inl err, this') \<Rightarrow> (Inl err, this')
           | (Inr client, this') \<Rightarrow>
               (case read_prop ''message.target'' (target message) of
                  Inl err \<Rightarrow> (Inl err, this')
                | Inr tgt \<Rightarrow>
                    if target_type tgt = Some ''issue_comment'' then
                      (case updateComment client
                              \<lparr>owner_param = target_owner tgt, repo_param = target_repo tgt,
                               number_param = message_activityId message,
                               body_param = message_text message\<rparr> of
                         Rejected err \<Rightarrow> (Inl err, this')
                       | Resolved r \<Rightarrow>
                           (Inr (Console_log (Response r) #
                                 (if \<not> status_lt_300 (Response r)
                                  then [Console_error_result ''Error updating activity on Github:''
                                          (Response r)]
                                  else [])),
                            this'))
                    else
                      (Inr [Console_error_result ''Error updating activity on Github:''
                              (Unsupported
                                 ''Unsupported target type (must be one of [issue_comment])'')],
                       this'))))"

definition updateActivity ::
  "(octokit_client \<Rightarrow> comment_params \<Rightarrow> octokit_response promise) \<Rightarrow> adapter \<Rightarrow> activity
     \<Rightarrow> call_outcome" where
  "updateActivity updateComment this act =
     (if truthy (activity_id act) \<and> conversation act \<noteq> None then
        (case update_try updateComment this act of
           (Inl err, this') \<Rightarrow>
             \<lparr>raised = None, console = [Console_error ''Error updating activity on Github:'' err],
              unhandled = [], adapter_then = this'\<rparr>
         | (Inr logged, this') \<Rightarrow>
             \<lparr>raised = None, console = logged, unhandled = [], adapter_then = this'\<rparr>)
      else
        \<lparr>raised = Some CannotUpdateMissingId, console = [], unhandled = [],
         adapter_then = this\<rparr>)"

text \<open>
  \<open>deleteActivity\<close>. The message is built from \<open>context.activity\<close>, not from the
  reference, and \<open>octokit.issues.deleteComment(...)\<close> is called without \<open>await\<close>:
  \<open>result\<close> is the promise, the function goes on without its settlement, and a
  rejection reaches no \<open>catch\<close>.
\<close>

record conversation_reference =
  reference_activityId :: jsval
  reference_conversation :: "conversation_account option"

definition rejection :: "'a promise \<Rightarrow> error list" where
  "rejection p = (case p of Rejected err \<Rightarrow> [err] | Resolved r \<Rightarrow> [])"

definition delete_try ::
  "(octokit_client \<Rightarrow> comment_params \<Rightarrow> octokit_response promise) \<Rightarrow> adapter \<Rightarrow> activity
     \<Rightarrow> (error + log_entry list \<times> error list) \<times> adapter" where
  "delete_try deleteComment this context_activity =
     (case getAPI this of
        (Inl err, this') \<Rightarrow> (Inl err, this')
      | (Inr client, this') \<Rightarrow>
          (case activityToGithub context_activity of
             Inl err \<Rightarrow> (Inl err, this')
           | Inr message \<Rightarrow>
               (case read_prop ''message.target'' (target message) of
                  Inl err \<Rightarrow> (Inl err, this')
                | Inr tgt \<Rightarrow>
                    if target_type tgt = Some ''issue_comment'' then
                      (let result =
                             Pending (deleteComment client
                               \<lparr>owner_param = target_owner tgt, repo_param = target_repo tgt,
                                number_param = message_activityId message, body_param = None\<rparr>)
                       in (Inr (Console_log result #
                                (if \<not> status_lt_300 result
                                 then [Console_error_result ''Error deleting activity:'' result]
                                 else []),
                                (case result of Pending p \<Rightarrow> rejection p | _ \<Rightarrow> [])),
                           this'))
                    else
                      (Inr ([Console_error_result ''Error deleting activity:''
                               (Unsupported
                                  ''Unsupported target type (must be one of [issue_comment])'')],
                            []),
                       this'))))"

definition deleteActivity ::
  "(octokit_client \<Rightarrow> comment_params \<Rightarrow> octokit_response promise) \<Rightarrow> adapter \<Rightarrow> activity
     \<Rightarrow> conversation_reference \<Rightarrow> call_outcome" where
  "deleteActivity deleteComment this context_activity reference =
     (if truthy (reference_activityId reference) \<and> reference_conversation reference \<noteq> None then
        (case delete_try deleteComment this context_activity of
           (Inl err, this') \<Rightarrow>
             \<lparr>raised = Some err, console = [Console_error ''Error deleting activity'' err],
              unhandled = [], adapter_then = this'\<rparr>
         | (Inr (logged, lost), this') \<Rightarrow>
             \<lparr>raised = None, console = logged, unhandled = lost, adapter_then = this'\<rparr>)
      else
        \<lparr>raised = Some CannotDeleteMissingActivityId, console = [], unhandled = [],
         adapter_then = this\<rparr>)"

section \<open>The message-type middleware\<close>

text \<open>
  Regular expressions. Strings are sequences of code units below 256. Under the flag
  \<open>i\<close> two code units match when they have the same canonical form, the code unit of
  their upper case: \<open>a\<close> to \<open>z\<close> and the Latin-1 letters \<open>0xE0\<close> to \<open>0xFE\<close> (but
  \<open>0xF7\<close>) move down by 32, \<open>0xB5\<close> goes to \<open>0x39C\<close> and \<open>0xFF\<close> to \<open>0x178\<close>;
  \<open>0xDF\<close>, whose upper case is two code units, stays, as every other code unit does.
\<close>

definition canonicalize :: "char \<Rightarrow> nat" where
  "canonicalize c =
     (let n = (of_char c :: nat)
      in if (97 \<le> n \<and> n \<le> 122) \<or> (224 \<le> n \<and> n \<le> 254 \<and> n \<noteq> 247) then n - 32
         else if n = 181 then 924
         else if n = 255 then 376
         else n)"

text \<open>
  A compiled pattern, as the middleware uses it: applied to a text it gives the text
  before and the text after the first match, or \<open>None\<close> when nothing matches.
  \<open>text.match(re)\<close> is truthy exactly when there is a match, and \<open>text.replace(re, '')\<close>
  joins the two parts.
\<close>

type_synonym regexp = "string \<Rightarrow> (string \<times> string) option"

definition replace_first :: "regexp \<Rightarrow> string \<Rightarrow> string" where
  "replace_first re s = (case re s of None \<Rightarrow> s | Some (before, after) \<Rightarrow> before @ after)"

text \<open>
  A pattern of literal characters: whether it matches at the start of a text, and the
  compiled patterns \<open>^pattern\<close> and \<open>pattern\<close>.
\<close>

fun match_start :: "string \<Rightarrow> string \<Rightarrow> bool" where
  "match_start [] s = True"
| "match_start (p # ps) [] = False"
| "match_start (p # ps) (c # cs) = (canonicalize p = canonicalize c \<and> match_start ps cs)"

definition exec_start :: "string \<Rightarrow> regexp" where
  "exec_start pat s = (if match_start pat s then Some ([], drop (length pat) s) else None)"

fun exec_anywhere :: "string \<Rightarrow> regexp" where
  "exec_anywhere pat [] = (if match_start pat [] then Some ([], []) else None)"
| "exec_anywhere pat (c # cs) =
     (if match_start pat (c # cs) then Some ([], drop (length pat) (c # cs))
      else (case exec_anywhere pat cs of
              None \<Rightarrow> None
            | Some (before, after) \<Rightarrow> Some (c # before, after)))"

text \<open>
  The login is spliced into the pattern source unescaped:
  \<open>new RegExp('@' + bot.login, 'i')\<close> and \<open>new RegExp('^@' + bot.login, 'i')\<close>. A login made
  of letters, digits and hyphens, as GitHub's are, is a pattern of literal characters and
  compiles to the matchers above. Any other login is a pattern for the regular-expression
  engine, which is the parameter \<open>RegExp\<close>: from a pattern source to the compiled pattern
  under the flag \<open>i\<close>, or to the SyntaxError thrown.
\<close>

definition literal_char :: "char \<Rightarrow> bool" where
  "literal_char c =
     (let n = (of_char c :: nat)
      in (48 \<le> n \<and> n \<le> 57) \<or> (65 \<le> n \<and> n \<le> 90) \<or> (97 \<le> n \<and> n \<le> 122) \<or> n = 45)"

definition literal_login :: "string \<Rightarrow> bool" where
  "literal_login login = list_all literal_char login"

definition mention_regexp :: "(string \<Rightarrow> error + regexp) \<Rightarrow> string \<Rightarrow> error + regexp" where
  "mention_regexp RegExp login =
     (let mentionSyntax = CHR ''@'' # login
      in if literal_login login then Inr (exec_anywhere mentionSyntax)
         else RegExp mentionSyntax)"

definition direct_mention_regexp :: "(string \<Rightarrow> error + regexp) \<Rightarrow> string \<Rightarrow> error + regexp" where
  "direct_mention_regexp RegExp login =
     (let mentionSyntax = CHR ''@'' # login
      in if literal_login login then Inr (exec_start mentionSyntax)
         else RegExp (CHR ''^'' # mentionSyntax))"

text \<open>
  The slash-command pattern is built from the string literal \<open>'^\/\w+'\<close>. In a string
  literal a backslash before \<open>/\<close> or \<open>w\<close> is dropped, so the pattern source is the
  five characters \<open>^/w+\<close>: a slash followed by one or more letters \<open>w\<close>. It matches
  exactly when the text starts with \<open>/w\<close> or \<open>/W\<close>.
\<close>

definition match_slash_command :: "string \<Rightarrow> bool" where
  "match_slash_command s = match_start ''/w'' s"

text \<open>White space (\<open>\s\<close>) among the code units below 256.\<close>

definition white_space :: "char \<Rightarrow> bool" where
  "white_space c =
     (let n = (of_char c :: nat) in (9 \<le> n \<and> n \<le> 13) \<or> n = 32 \<or> n = 160)"

text \<open>\<open>.replace(/^\s+/, '')\<close>, \<open>.replace(/^:\s+/, '')\<close> and \<open>.replace(/^\//, '')\<close>.\<close>

definition strip_space :: "string \<Rightarrow> string" where
  "strip_space s = dropWhile white_space s"

definition strip_colon_space :: "string \<Rightarrow> string" where
  "strip_colon_space s =
     (case s of
        c # d # rest \<Rightarrow>
          if c = CHR '':'' \<and> white_space d then dropWhile white_space rest else s
      | _ \<Rightarrow> s)"

definition strip_slash :: "string \<Rightarrow> string" where
  "strip_slash s = (case s of c # rest \<Rightarrow> if c = CHR ''/'' then rest else s | [] \<Rightarrow> s)"

definition strip_mention :: "regexp \<Rightarrow> string \<Rightarrow> string" where
  "strip_mention direct_mention s =
     strip_space (strip_colon_space (strip_space (replace_first direct_mention s)))"

text \<open>
  \<open>GithubMessageTypeMiddleware.onTurn\<close> up to the call of \<open>next\<close>: the activity as the
  rest of the pipeline sees it. The three patterns are compiled before the text is looked
  at, so a login that is a malformed pattern throws whatever the text.
\<close>

definition tag :: "string \<Rightarrow> payload \<Rightarrow> payload" where
  "tag t cd = cd\<lparr>botkitEventType := Some t\<rparr>"

definition classify :: "regexp \<Rightarrow> regexp \<Rightarrow> identity \<Rightarrow> payload \<Rightarrow> activity \<Rightarrow> activity" where
  "classify mention direct_mention bot_user cd a =
     (let has_login = (identity_login bot_user \<noteq> []);
          s = (case activity_text a of None \<Rightarrow> [] | Some t \<Rightarrow> t)
      in if has_login \<and> s \<noteq> [] \<and> direct_mention s \<noteq> None then
           a\<lparr>channelData := Some (tag ''direct_mention'' cd),
             activity_text := Some (strip_mention direct_mention s)\<rparr>
         else if has_login \<and> s \<noteq> [] \<and> mention s \<noteq> None then
           a\<lparr>channelData := Some (tag ''mention'' cd)\<rparr>
         else if s \<noteq> [] \<and> match_slash_command s then
           a\<lparr>channelData := Some (tag ''slash_command'' cd),
             activity_type := Event,
             activity_text := Some (strip_slash s)\<rparr>
         else a)"

definition message_onTurn ::
  "(string \<Rightarrow> error + regexp) \<Rightarrow> (octokit_client \<Rightarrow> authenticated_user option promise)
     \<Rightarrow> adapter \<Rightarrow> activity \<Rightarrow> (error + activity) \<times> adapter" where
  "message_onTurn RegExp getAuthenticated this a =
     (case (activity_type a, channelData a) of
        (Message, Some cd) \<Rightarrow>
          (case getBotUserFromAPI getAuthenticated this of
             (Inl err, this') \<Rightarrow> (Inl err, this')
           | (Inr bot_user, this') \<Rightarrow>
               (case mention_regexp RegExp (identity_login bot_user) of
                  Inl err \<Rightarrow> (Inl err, this')
                | Inr mention \<Rightarrow>
                    (case direct_mention_regexp RegExp (identity_login bot_user) of
                       Inl err \<Rightarrow> (Inl err, this')
                     | Inr direct_mention \<Rightarrow>
                         (Inr (classify mention direct_mention bot_user cd a), this'))))
      | _ \<Rightarrow> (Inr a, this))"

section \<open>The event-type middleware\<close>

definition jsval_of_number :: "int option \<Rightarrow> jsval" where
  "jsval_of_number n = (case n of None \<Rightarrow> Undefined | Some k \<Rightarrow> Num k)"

text \<open>
  The two blocks that add conversation details, for \<open>pull_request\<close> and for \<open>issues\<close>.
  The activity is changed in place, one assignment after the other, so a read on
  \<open>undefined\<close> throws with the earlier assignments done: the result is the activity as
  it stands and the error thrown, if any.
\<close>

definition backfill_pull_request ::
  "string \<Rightarrow> payload \<Rightarrow> activity \<Rightarrow> activity \<times> error option" where
  "backfill_pull_request eventType cd a =
     (case conversation a of
        None \<Rightarrow> (a, Some (TypeError ''context.activity.conversation''))
      | Some conv \<Rightarrow>
          (let conv' = conv\<lparr>isGroup := Some True,
                            conversationType := Some eventType,
                            conversation_id := jsval_of_number (number cd)\<rparr>
           in case repository cd of
                None \<Rightarrow>
                  (a\<lparr>conversation := Some conv'\<rparr>,
                   Some (TypeError ''context.activity.channelData.repository''))
              | Some r \<Rightarrow>
                  (a\<lparr>conversation := Some (conv'\<lparr>repo := Some (full_name r)\<rparr>)\<rparr>, None)))"

definition backfill_issues ::
  "string \<Rightarrow> payload \<Rightarrow> activity \<Rightarrow> activity \<times> error option" where
  "backfill_issues eventType cd a =
     (case conversation a of
        None \<Rightarrow> (a, Some (TypeError ''context.activity.conversation''))
      | Some conv \<Rightarrow>
          (let conv' = conv\<lparr>isGroup := Some True, conversationType := Some eventType\<rparr>
           in case issue cd of
                None \<Rightarrow>
                  (a\<lparr>conversation := Some conv'\<rparr>,
                   Some (TypeError ''context.activity.channelData.issue''))
              | Some i \<Rightarrow>
                  (let conv'' = conv'\<lparr>conversation_id := Num (issue_number i)\<rparr>
                   in case repository cd of
                        None \<Rightarrow>
                          (a\<lparr>conversation := Some conv''\<rparr>,
                           Some (TypeError ''context.activity.channelData.repository''))
                      | Some r \<Rightarrow>
                          (a\<lparr>conversation := Some (conv''\<lparr>repo := Some (full_name r)\<rparr>)\<rparr>,
                           None))))"

text \<open>The composite tag: \<open>eventType + '_' + action\<close> when \<open>action\<close> is truthy.\<close>

definition composite_tag :: "string \<Rightarrow> payload \<Rightarrow> string" where
  "composite_tag eventType cd =
     (case action cd of
        None \<Rightarrow> eventType
      | Some act \<Rightarrow> if act = [] then eventType else eventType @ ''_'' @ act)"

text \<open>\<open>GithubEventTypeMiddleware.onTurn\<close> up to the call of \<open>next\<close>.\<close>

definition event_onTurn :: "activity \<Rightarrow> activity \<times> error option" where
  "event_onTurn a =
     (case (activity_type a, label a, channelData a) of
        (Event, Some eventType, Some cd) \<Rightarrow>
          if eventType \<noteq> [] \<and> botkitEventType cd \<noteq> Some ''slash_command'' then
            (let cd' = tag (composite_tag eventType cd) cd;
                 tagged = a\<lparr>channelData := Some cd'\<rparr>
             in if eventType = ''pull_request'' then backfill_pull_request eventType cd' tagged
                else if eventType = ''issues'' then backfill_issues eventType cd' tagged
                else (tagged, None))
          else (a, None)
      | _ \<Rightarrow> (a, None))"

section \<open>Statements about sending\<close>

text \<open>
  An activity for which \<open>sendActivities\<close> calls the API: message-kind, with a
  conversation that carries a \<open>repo\<close> and one of the three supported types.
\<close>

definition sendable :: "activity \<Rightarrow> bool" where
  "sendable act =
     (activity_type act = Message \<and>
      (case conversation act of
         None \<Rightarrow> False
       | Some conv \<Rightarrow>
           repo conv \<noteq> None \<and>
           (conversationType conv = Some ''issue_comment'' \<or>
            conversationType conv = Some ''pull_request'' \<or>
            conversationType conv = Some ''issues'')))"

text \<open>
  The call that \<open>sendActivities\<close> makes for a sendable activity at position \<open>a\<close>:
  \<open>owner\<close> and \<open>repo\<close> are the first two parts of \<open>conversation.repo\<close>,
  \<open>issue_number\<close> is \<open>conversation.id\<close> and \<open>body\<close> is the text; the client is a
  new one for every activity, numbered from the count of clients constructed before the
  batch. \<open>api_answer\<close> is the API's answer to that call.
\<close>

definition create_params :: "activity \<Rightarrow> comment_params" where
  "create_params act =
     (let repoParts =
            (case conversation act of
               None \<Rightarrow> []
             | Some conv \<Rightarrow> (case repo conv of None \<Rightarrow> [] | Some r \<Rightarrow> split (CHR ''/'') r))
      in \<lparr>owner_param = index repoParts 0,
          repo_param = index repoParts 1,
          number_param =
            (case conversation act of None \<Rightarrow> Undefined | Some conv \<Rightarrow> conversation_id conv),
          body_param = (if truthy_str (activity_text act) then activity_text act else None)\<rparr>)"

definition api_answer ::
  "(nat \<Rightarrow> octokit_client \<Rightarrow> comment_params \<Rightarrow> octokit_response promise) \<Rightarrow> string \<Rightarrow> nat \<Rightarrow> nat
     \<Rightarrow> activity \<Rightarrow> octokit_response promise" where
  "api_answer createComment token first_id a act =
     createComment a \<lparr>auth = token, userAgent = ''Botkit'', object_id = first_id + a\<rparr>
       (create_params act)"

text \<open>
  The specification: a successful call (status below 300) yields a response record
  \<open>{id, activityId, conversation}\<close>; a failure is logged and yields no record. These
  two functions say so for one answer of the API; they are compared with the loop of the
  source below.
\<close>

definition spec_record :: "octokit_response promise \<Rightarrow> activity \<Rightarrow> resource_response list" where
  "spec_record answer act =
     (case answer of
        Rejected err \<Rightarrow> []
      | Resolved r \<Rightarrow>
          if status r < 300
          then [\<lparr>response_id = data_id r, response_activityId = activity_id act,
                 response_conversation = conversation act\<rparr>]
          else [])"

definition spec_logged :: "octokit_response promise \<Rightarrow> log_entry list" where
  "spec_logged answer =
     (case answer of
        Rejected err \<Rightarrow> [Console_error ''Error sending activity to API:'' err]
      | Resolved r \<Rightarrow>
          if status r < 300 then []
          else [Console_error_result ''Error sending activity to API:'' (Response r)])"

section \<open>Concrete inputs\<close>

text \<open>
  A stand-in digest for the concrete examples below (the theorems hold for every digest
  function): forty hexadecimal zeros.
\<close>

definition zero_digest :: "string \<Rightarrow> string \<Rightarrow> string" where
  "zero_digest secret basestring = ''0000000000000000000000000000000000000000''"

text \<open>
  An adapter as the constructor leaves it, with both options set, and the same adapter
  once the identity of the bot (user 7, \<open>mybot\<close>) is cached.
\<close>

definition demo_adapter :: adapter where
  "demo_adapter =
     \<lparr>webhookSecret = Some ''s3cret'', githubToken = Some ''token'', octokit = None,
      bot_identity = None, constructed = 0\<rparr>"

definition mybot :: identity where
  "mybot = \<lparr>identity_user_id = 7, identity_login = ''mybot''\<rparr>"

definition demo_adapter_cached :: adapter where
  "demo_adapter_cached = demo_adapter\<lparr>bot_identity := Some mybot\<rparr>"

text \<open>
  An \<open>issue_comment\<close> delivery: a comment \<open>hello\<close> by the user with the given id on issue
  42 of \<open>o/r\<close>, signed with the stand-in digest.
\<close>

definition demo_headers :: "string \<Rightarrow> string \<Rightarrow> string \<Rightarrow> string option" where
  "demo_headers signature eventType name =
     (if name = ''X-Hub-Signature'' then Some signature
      else if name = ''X-Github-Event'' then Some eventType
      else if name = ''X-Github-Delivery'' then Some ''72d3162e-cc78-11e3-81ab-4c9367dc0958''
      else None)"

definition demo_comment_event :: "int \<Rightarrow> payload" where
  "demo_comment_event author =
     \<lparr>comment =
        Some \<lparr>comment_id = 1001, comment_body = ''hello'',
              comment_updated_at = ''2019-05-15T15:20:33Z'',
              comment_user = \<lparr>user_id = author, user_login = ''octocat'', user_type = ''User''\<rparr>\<rparr>,
      issue = Some \<lparr>issue_number = 42\<rparr>,
      repository = Some \<lparr>full_name = ''o/r''\<rparr>,
      sender = Some \<lparr>user_id = author, user_login = ''octocat'', user_type = ''User''\<rparr>,
      action = Some ''created'',
      number = None,
      botkitEventType = None\<rparr>"

definition demo_comment_request :: "int \<Rightarrow> request" where
  "demo_comment_request author =
     \<lparr>rawBody = Some ''{}'',
      body = Some (demo_comment_event author),
      header =
        demo_headers ''sha1=0000000000000000000000000000000000000000'' ''issue_comment''\<rparr>"

text \<open>The rest of the pipeline, leaving the turn as it is; an API that knows the bot.\<close>

definition run_nothing :: "turn_context \<Rightarrow> error + turn_context" where
  "run_nothing context = Inr context"

definition getAuthenticated_mybot :: "octokit_client \<Rightarrow> authenticated_user option promise" where
  "getAuthenticated_mybot client = Resolved (Some \<lparr>data_user_id = 7, data_login = Some ''mybot''\<rparr>)"

text \<open>
  A reply of the bot into issue 42 of \<open>o/r\<close>, carrying the id of the comment it
  stands for, and a reference to it.
\<close>

definition demo_reply :: "string \<Rightarrow> activity" where
  "demo_reply s =
     \<lparr>activity_type = Message, activity_id = Num 1001, timestamp = None, channelData = None,
      channelId = ''github'',
      from_account = \<lparr>account_id = Str ''mybot'', account_role = Some Bot\<rparr>,
      conversation =
        Some \<lparr>isGroup = Some True, conversationType = Some ''issue_comment'',
              conversation_id = Num 42, repo = Some ''o/r''\<rparr>,
      recipient = \<lparr>account_id = Str ''octocat'', account_role = Some User\<rparr>,
      activity_text = Some s, label = None\<rparr>"

definition demo_reference :: conversation_reference where
  "demo_reference =
     \<lparr>reference_activityId = Num 1001,
      reference_conversation = conversation (demo_reply ''hello'')\<rparr>"

text \<open>
  Replies for a batch: a reply with its own id into the issue of the given number, and a
  reply into the conversation of an event activity, which \<open>processActivity\<close> builds as
  \<open>{id: delivery}\<close> with no \<open>repo\<close>.
\<close>

definition demo_reply_to :: "int \<Rightarrow> int \<Rightarrow> string \<Rightarrow> activity" where
  "demo_reply_to reply_id issue_no s =
     \<lparr>activity_type = Message, activity_id = Num reply_id, timestamp = None,
      channelData = None, channelId = ''github'',
      from_account = \<lparr>account_id = Str ''mybot'', account_role = Some Bot\<rparr>,
      conversation =
        Some \<lparr>isGroup = Some True, conversationType = Some ''issue_comment'',
              conversation_id = Num issue_no, repo = Some ''o/r''\<rparr>,
      recipient = \<lparr>account_id = Str ''octocat'', account_role = Some User\<rparr>,
      activity_text = Some s, label = None\<rparr>"

definition demo_event_reply :: activity where
  "demo_event_reply =
     \<lparr>activity_type = Message, activity_id = Num 2, timestamp = None,
      channelData = None, channelId = ''github'',
      from_account = \<lparr>account_id = Str ''mybot'', account_role = Some Bot\<rparr>,
      conversation =
        Some \<lparr>isGroup = None, conversationType = None,
              conversation_id = Str ''72d3162e-cc78-11e3-81ab-4c9367dc0958'', repo = None\<rparr>,
      recipient = \<lparr>account_id = Str ''octocat'', account_role = Some User\<rparr>,
      activity_text = Some ''thanks for the push'', label = None\<rparr>"

text \<open>
  An API whose first answer is a rejection and whose later answers are \<open>201 Created\<close>;
  an API that creates every comment, numbering them from 500; an API that rejects every
  call.
\<close>

definition api_created ::
  "nat \<Rightarrow> octokit_client \<Rightarrow> comment_params \<Rightarrow> octokit_response promise" where
  "api_created a client params = Resolved \<lparr>status = 201, data_id = 500 + int a\<rparr>"


definition first_fails ::
  "nat \<Rightarrow> octokit_client \<Rightarrow> comment_params \<Rightarrow> octokit_response promise" where
  "first_fails a client params =
     (if a = 0 then Rejected (ApiError ''Server Error'')
      else Resolved \<lparr>status = 201, data_id = 555\<rparr>)"

definition api_down :: "octokit_client \<Rightarrow> comment_params \<Rightarrow> octokit_response promise" where
  "api_down client params = Rejected (ApiError ''Not Found'')"

text \<open>
  The message activity that \<open>processActivity\<close> builds for a comment with the given text
  by user 9, and the event activity it builds for a \<open>pull_request\<close> delivery with
  action \<open>opened\<close> on pull request 17.
\<close>

definition demo_message :: "string \<Rightarrow> activity" where
  "demo_message s =
     \<lparr>activity_type = Message, activity_id = Num 1001,
      timestamp = Some (Date_of ''2019-05-15T15:20:33Z''),
      channelData = Some (demo_comment_event 9),
      channelId = ''github'',
      from_account = \<lparr>account_id = Str ''octocat'', account_role = Some User\<rparr>,
      conversation =
        Some \<lparr>isGroup = Some True, conversationType = Some ''issue_comment'',
              conversation_id = Num 42, repo = Some ''o/r''\<rparr>,
      recipient = \<lparr>account_id = Str ''mybot'', account_role = Some Bot\<rparr>,
      activity_text = Some s, label = Some ''issue_comment''\<rparr>"

definition demo_pull_request_event :: payload where
  "demo_pull_request_event =
     \<lparr>comment = None, issue = None,
      repository = Some \<lparr>full_name = ''o/r''\<rparr>,
      sender = Some \<lparr>user_id = 9, user_login = ''octocat'', user_type = ''User''\<rparr>,
      action = Some ''opened'',
      number = Some 17,
      botkitEventType = None\<rparr>"

definition demo_pull_request_activity :: activity where
  "demo_pull_request_activity =
     \<lparr>activity_type = Event, activity_id = Str ''o/r'',
      timestamp = Some Date_now,
      channelData = Some demo_pull_request_event,
      channelId = ''github'',
      from_account = \<lparr>account_id = Str ''octocat'', account_role = Some User\<rparr>,
      conversation =
        Some \<lparr>isGroup = None, conversationType = None,
              conversation_id = Str ''72d3162e-cc78-11e3-81ab-4c9367dc0958'', repo = None\<rparr>,
      recipient = \<lparr>account_id = Null, account_role = None\<rparr>,
      activity_text = None, label = Some ''pull_request''\<rparr>"

section \<open>Properties of signature verification\<close>

lemma utf8_char_length: "length (utf8_char c) = (if (of_char c :: nat) < 128 then 1 else 2)"
  by (simp add: utf8_char_def Let_def)

lemma utf8_char_nonempty: "utf8_char c \<noteq> []"
  by (simp add: utf8_char_def Let_def)

lemma Buffer_from_length_ge: "length xs \<le> length (Buffer_from xs)"
proof (induction xs)
  case Nil
  show ?case by (simp add: Buffer_from_def)
next
  case (Cons c cs)
  have "1 \<le> length (utf8_char c)" by (simp add: utf8_char_length)
  with Cons show ?case by (simp add: Buffer_from_def)
qed

text \<open>The encoding is injective: equal buffers come from equal strings.\<close>

lemma utf8_char_inj: "utf8_char c = utf8_char d \<Longrightarrow> c = d"
proof -
  assume h: "utf8_char c = utf8_char d"
  have "(of_char c :: nat) = of_char d"
  proof (cases "(of_char c :: nat) < 128")
    case True
    with h show ?thesis
      by (cases "(of_char d :: nat) < 128") (simp_all add: utf8_char_def Let_def)
  next
    case False
    with h have nd: "\<not> (of_char d :: nat) < 128"
      by (cases "(of_char d :: nat) < 128") (simp_all add: utf8_char_def Let_def)
    from h False nd have "(of_char c :: nat) div 64 = of_char d div 64"
      and "(of_char c :: nat) mod 64 = of_char d mod 64"
      by (simp_all add: utf8_char_def Let_def)
    then show ?thesis
      by (metis div_mult_mod_eq)
  qed
  then show ?thesis by simp
qed

lemma utf8_char_prefix:
  "utf8_char c @ xs = utf8_char d @ ys \<Longrightarrow> c = d \<and> xs = ys"
proof -
  assume h: "utf8_char c @ xs = utf8_char d @ ys"
  have "length (utf8_char c) = length (utf8_char d)"
  proof (cases "(of_char c :: nat) < 128")
    case True
    with h show ?thesis
      by (cases "(of_char d :: nat) < 128") (auto simp add: utf8_char_def Let_def)
  next
    case False
    with h show ?thesis
      by (cases "(of_char d :: nat) < 128") (auto simp add: utf8_char_def Let_def)
  qed
  with h have "utf8_char c = utf8_char d" and "xs = ys" by simp_all
  then show ?thesis by (simp add: utf8_char_inj)
qed

lemma Buffer_from_inj: "Buffer_from xs = Buffer_from ys \<Longrightarrow> xs = ys"
proof (induction xs arbitrary: ys)
  case Nil
  then show ?case
    by (cases ys) (simp_all add: Buffer_from_def utf8_char_nonempty)
next
  case (Cons c cs)
  show ?case
  proof (cases ys)
    case Nil
    with Cons.prems show ?thesis
      by (simp add: Buffer_from_def utf8_char_nonempty)
  next
    case (Cons d ds)
    with Cons.prems have "utf8_char c @ Buffer_from cs = utf8_char d @ Buffer_from ds"
      by (simp add: Buffer_from_def)
    then have "c = d" and "Buffer_from cs = Buffer_from ds"
      using utf8_char_prefix by blast+
    with Cons.IH Cons show ?thesis by simp
  qed
qed

text \<open>
  What \<open>verifySignature\<close> does when a secret is configured and the request has a raw
  body: a TypeError without the header, the error of \<open>timingSafeEqual\<close> when the
  header and the computed signature differ in byte length, and only for a header of the
  right length the comparison: true on the computed signature, false with status 401 on
  any other value.
\<close>

lemma verifySignature_secret_body:
  "webhookSecret this = Some secret \<Longrightarrow> secret \<noteq> [] \<Longrightarrow> rawBody req = Some b \<Longrightarrow> b \<noteq> [] \<Longrightarrow>
   verifySignature hmac this req =
     (case header req ''X-Hub-Signature'' of
        None \<Rightarrow> Inl (TypeError ''Buffer.from(messageHash)'')
      | Some h \<Rightarrow>
          if length (Buffer_from h) \<noteq> length (Buffer_from (''sha1='' @ hmac secret b))
          then Inl TimingSafeEqualLength
          else if h = ''sha1='' @ hmac secret b then Inr (True, [])
          else Inr (False, [ResStatus 401]))"
  by (auto simp add: verifySignature_def validSignature_def timingSafeEqual_def Let_def
      dest: Buffer_from_inj split: option.splits)

text \<open>
  C1. The claim: with a secret configured, \<open>verifySignature\<close> returns true on the
  computed signature and false, without throwing, on every other header value, also one of
  another byte length. The code at a header of another length: secret \<open>s3cret\<close>, raw
  body \<open>{}\<close>, header \<open>X-Hub-Signature: sha1\<close> (four bytes, fewer than any
  \<open>sha1=\<close> followed by a digest). Whatever the digest function, \<open>timingSafeEqual\<close>
  throws and \<open>verifySignature\<close> with it: no boolean is returned and no status 401 is set.
\<close>

theorem verifySignature_throws_on_length_mismatch:
  "verifySignature hmac demo_adapter
     \<lparr>rawBody = Some ''{}'', body = None, header = demo_headers ''sha1'' ''issue_comment''\<rparr>
   = Inl TimingSafeEqualLength"
proof -
  have "length (Buffer_from ''sha1'') = 4"
    by (simp add: Buffer_from_def utf8_char_def)
  moreover have "5 \<le> length (Buffer_from (''sha1='' @ hmac ''s3cret'' ''{}''))"
    using Buffer_from_length_ge [of "''sha1='' @ hmac ''s3cret'' ''{}''"] by simp
  ultimately show ?thesis
    by (simp add: verifySignature_secret_body [of _ "''s3cret''" _ "''{}''"]
        demo_adapter_def demo_headers_def)
qed

text \<open>
  C9. With no webhook secret configured (absent or empty), \<open>verifySignature\<close> returns
  true for every request, whatever its body and its signature header, and makes no call
  on the response.
\<close>

theorem verifySignature_no_secret:
  "\<not> truthy_str (webhookSecret this) \<Longrightarrow> verifySignature hmac this req = Inr (True, [])"
  by (simp add: verifySignature_def)

theorem verifySignature_no_secret_witness:
  "\<not> truthy_str (webhookSecret (demo_adapter\<lparr>webhookSecret := None\<rparr>)) \<and>
   verifySignature zero_digest (demo_adapter\<lparr>webhookSecret := None\<rparr>)
     \<lparr>rawBody = Some ''{}'', body = None, header = (\<lambda>n. Some ''sha1=forged'')\<rparr>
   = Inr (True, [])"
  using verifySignature_no_secret
    [of "demo_adapter\<lparr>webhookSecret := None\<rparr>" zero_digest
        "\<lparr>rawBody = Some ''{}'', body = None, header = (\<lambda>n. Some ''sha1=forged'')\<rparr>"]
  by (simp add: demo_adapter_def)

section \<open>Properties of the inbound pipeline\<close>

lemma getAPI_webhookSecret:
  "getAPI (this\<lparr>webhookSecret := s\<rparr>) =
     (fst (getAPI this), (snd (getAPI this))\<lparr>webhookSecret := s\<rparr>)"
  by (simp add: getAPI_def split: option.splits)

lemma getBotUserFromAPI_webhookSecret:
  "getBotUserFromAPI g (this\<lparr>webhookSecret := s\<rparr>) =
     (fst (getBotUserFromAPI g this), (snd (getBotUserFromAPI g this))\<lparr>webhookSecret := s\<rparr>)"
  by (simp add: getBotUserFromAPI_def getAPI_webhookSecret Let_def
      split: option.splits prod.splits sum.splits promise.splits)

lemma run_turn_fields:
  "thrown (run_turn run this a) = thrown (run_turn run this2 a)"
  "dispatched (run_turn run this a) = dispatched (run_turn run this2 a)"
  "response (run_turn run this a) = response (run_turn run this2 a)"
  by (simp_all add: run_turn_def Let_def split: sum.splits)

text \<open>
  C10. Also with a secret configured, a request whose \<open>rawBody\<close> is absent or empty
  passes \<open>verifySignature\<close>: it returns true, compares nothing and sets no status. Such
  a request is then processed exactly as by an adapter that has no secret: the same
  activity is dispatched, the same response written, the same error thrown if any.
\<close>

theorem verifySignature_no_rawBody:
  assumes "\<not> truthy_str (rawBody req)"
  shows "verifySignature hmac this req = Inr (True, []) \<and>
         thrown (processActivity hmac g run this req) =
           thrown (processActivity hmac g run (this\<lparr>webhookSecret := None\<rparr>) req) \<and>
         dispatched (processActivity hmac g run this req) =
           dispatched (processActivity hmac g run (this\<lparr>webhookSecret := None\<rparr>) req) \<and>
         response (processActivity hmac g run this req) =
           response (processActivity hmac g run (this\<lparr>webhookSecret := None\<rparr>) req)"
proof -
  have v: "verifySignature hmac this req = Inr (True, [])"
    using assms by (simp add: verifySignature_def)
  have v': "verifySignature hmac (this\<lparr>webhookSecret := None\<rparr>) req = Inr (True, [])"
    by (simp add: verifySignature_def)
  obtain r this' where g: "getBotUserFromAPI g this = (r, this')"
    by (cases "getBotUserFromAPI g this")
  then have g': "getBotUserFromAPI g (this\<lparr>webhookSecret := None\<rparr>) =
      (r, this'\<lparr>webhookSecret := None\<rparr>)"
    by (simp add: getBotUserFromAPI_webhookSecret)
  show ?thesis
    using run_turn_fields [of run this' _ "this'\<lparr>webhookSecret := None\<rparr>"]
    by (simp add: processActivity_def v v' g g' Let_def throws_def returns_early_def
        split: sum.splits)
qed

text \<open>
  At a concrete input: the adapter has the secret \<open>s3cret\<close>, the request has no raw
  body and a forged signature header, and the comment it carries is dispatched.
\<close>

theorem verifySignature_no_rawBody_witness:
  "\<not> truthy_str (rawBody ((demo_comment_request 9)\<lparr>rawBody := None, header := demo_headers ''forged'' ''issue_comment''\<rparr>)) \<and>
   truthy_str (webhookSecret demo_adapter_cached) \<and>
   verifySignature zero_digest demo_adapter_cached
     ((demo_comment_request 9)\<lparr>rawBody := None, header := demo_headers ''forged'' ''issue_comment''\<rparr>)
     = Inr (True, []) \<and>
   dispatched (processActivity zero_digest getAuthenticated_mybot run_nothing demo_adapter_cached
     ((demo_comment_request 9)\<lparr>rawBody := None, header := demo_headers ''forged'' ''issue_comment''\<rparr>))
     \<noteq> None"
proof -
  have d: "dispatched (processActivity zero_digest getAuthenticated_mybot run_nothing
      demo_adapter_cached
      ((demo_comment_request 9)\<lparr>rawBody := None, header := demo_headers ''forged'' ''issue_comment''\<rparr>))
      \<noteq> None"
    by (simp add: mybot_def demo_adapter_cached_def demo_adapter_def demo_comment_request_def
        demo_comment_event_def demo_headers_def processActivity_def verifySignature_def
        getBotUserFromAPI_def read_prop_def issue_comment_activity_def run_turn_def
        run_nothing_def Let_def)
  show ?thesis
    using d verifySignature_no_rawBody
      [of "(demo_comment_request 9)\<lparr>rawBody := None, header := demo_headers ''forged'' ''issue_comment''\<rparr>"
          zero_digest demo_adapter_cached getAuthenticated_mybot run_nothing]
    by (simp add: demo_adapter_cached_def demo_adapter_def demo_comment_request_def)
qed

text \<open>
  C2. An \<open>issue_comment\<close> webhook whose \<open>comment.user.id\<close> equals the user id of the
  cached bot identity is dropped: \<open>runMiddleware\<close>, and with it the bot logic, is never
  called, whatever the signature check does; and when the signature check passes,
  \<open>processActivity\<close> returns normally with no call on the response and the adapter
  unchanged.
\<close>

theorem processActivity_drops_own_comment:
  assumes "bot_identity this = Some user"
    and "header req ''X-Github-Event'' = Some ''issue_comment''"
    and "body req = Some event"
    and "comment event = Some c"
    and "user_id (comment_user c) = identity_user_id user"
  shows "dispatched (processActivity hmac g run this req) = None \<and>
         (verifySignature hmac this req = Inr (True, []) \<longrightarrow>
          processActivity hmac g run this req =
            \<lparr>thrown = None, dispatched = None, response = [], adapter_after = this\<rparr>)"
  using assms
  by (simp add: processActivity_def getBotUserFromAPI_def read_prop_def Let_def throws_def
      returns_early_def split: sum.splits prod.splits bool.splits)

theorem processActivity_drops_own_comment_witness:
  "bot_identity demo_adapter_cached = Some mybot \<and>
   user_id (comment_user (the (comment (demo_comment_event 7)))) = identity_user_id mybot \<and>
   verifySignature zero_digest demo_adapter_cached (demo_comment_request 7) = Inr (True, []) \<and>
   processActivity zero_digest getAuthenticated_mybot run_nothing demo_adapter_cached
     (demo_comment_request 7) =
     \<lparr>thrown = None, dispatched = None, response = [], adapter_after = demo_adapter_cached\<rparr>"
  using processActivity_drops_own_comment
    [of demo_adapter_cached mybot "demo_comment_request 7" "demo_comment_event 7"
        "the (comment (demo_comment_event 7))" zero_digest getAuthenticated_mybot run_nothing]
  by (simp add: mybot_def demo_adapter_cached_def demo_adapter_def demo_comment_request_def
      demo_comment_event_def demo_headers_def verifySignature_def validSignature_def
      timingSafeEqual_def zero_digest_def)

text \<open>
  C3. For an \<open>issue_comment\<close> webhook with \<open>issue.number = 42\<close>,
  \<open>repository.full_name = "o/r"\<close> and \<open>comment.body = "hello"\<close> that passes the
  signature check and is not the bot's own comment, the activity handed to the pipeline is
  message-kind, its conversation is
  \<open>{isGroup: true, conversationType: "issue_comment", id: 42, repo: "o/r"}\<close>, its text is
  \<open>hello\<close>, its sender id is the login of the comment's author and its label is
  \<open>issue_comment\<close>.
\<close>

theorem processActivity_issue_comment_activity:
  assumes "verifySignature hmac this req = Inr (True, effects)"
    and "getBotUserFromAPI g this = (Inr user, this')"
    and "header req ''X-Github-Event'' = Some ''issue_comment''"
    and "body req = Some event"
    and "comment event = Some c" and "issue event = Some i" and "repository event = Some r"
    and "issue_number i = 42" and "full_name r = ''o/r''" and "comment_body c = ''hello''"
    and "user_id (comment_user c) \<noteq> identity_user_id user"
  shows "\<exists>context. dispatched (processActivity hmac g run this req) = Some context \<and>
           activity_type (turn_activity context) = Message \<and>
           conversation (turn_activity context) =
             Some \<lparr>isGroup = Some True, conversationType = Some ''issue_comment'',
                   conversation_id = Num 42, repo = Some ''o/r''\<rparr> \<and>
           activity_text (turn_activity context) = Some ''hello'' \<and>
           account_id (from_account (turn_activity context)) = Str (user_login (comment_user c)) \<and>
           label (turn_activity context) = Some ''issue_comment''"
  using assms
  by (auto simp add: processActivity_def read_prop_def issue_comment_activity_def run_turn_def
      Let_def split: sum.splits)

theorem processActivity_issue_comment_activity_witness:
  "verifySignature zero_digest demo_adapter (demo_comment_request 9) = Inr (True, []) \<and>
   getBotUserFromAPI getAuthenticated_mybot demo_adapter =
     (Inr mybot, demo_adapter\<lparr>constructed := 1, bot_identity := Some mybot\<rparr>) \<and>
   user_id (comment_user (the (comment (demo_comment_event 9)))) \<noteq> identity_user_id mybot \<and>
   (\<exists>context.
      dispatched (processActivity zero_digest getAuthenticated_mybot run_nothing demo_adapter
        (demo_comment_request 9)) = Some context \<and>
      activity_type (turn_activity context) = Message \<and>
      conversation (turn_activity context) =
        Some \<lparr>isGroup = Some True, conversationType = Some ''issue_comment'',
              conversation_id = Num 42, repo = Some ''o/r''\<rparr> \<and>
      activity_text (turn_activity context) = Some ''hello'' \<and>
      account_id (from_account (turn_activity context)) = Str ''octocat'' \<and>
      label (turn_activity context) = Some ''issue_comment'')"
proof -
  have v: "verifySignature zero_digest demo_adapter (demo_comment_request 9) = Inr (True, [])"
    by (simp add: demo_adapter_def demo_comment_request_def demo_headers_def
        verifySignature_def validSignature_def timingSafeEqual_def zero_digest_def)
  have g: "getBotUserFromAPI getAuthenticated_mybot demo_adapter =
      (Inr mybot, demo_adapter\<lparr>constructed := 1, bot_identity := Some mybot\<rparr>)"
    by (simp add: getBotUserFromAPI_def getAPI_def getAuthenticated_mybot_def demo_adapter_def
        mybot_def Let_def)
  show ?thesis
    using v g processActivity_issue_comment_activity
      [OF v g, of "demo_comment_event 9" "the (comment (demo_comment_event 9))"
          "\<lparr>issue_number = 42\<rparr>" "\<lparr>full_name = ''o/r''\<rparr>" run_nothing]
    by (simp add: demo_comment_request_def demo_comment_event_def demo_headers_def mybot_def)
qed

section \<open>Properties of the API client\<close>

lemma getAPI_fresh:
  "octokit this = None \<Longrightarrow> githubToken this = Some token \<Longrightarrow> token \<noteq> [] \<Longrightarrow>
   getAPI this = (Inr \<lparr>auth = token, userAgent = ''Botkit'', object_id = constructed this\<rparr>,
                 this\<lparr>constructed := Suc (constructed this)\<rparr>)"
  by (simp add: getAPI_def)

text \<open>No call of \<open>getAPI\<close> stores a client: the field \<open>octokit\<close> is as it was.\<close>

lemma getAPI_stores_nothing: "octokit (snd (getAPI this)) = octokit this"
  by (simp add: getAPI_def split: option.splits)

text \<open>Without a token (absent or empty) \<open>getAPI\<close> throws the missing-token error.\<close>

lemma getAPI_missing_token:
  "octokit this = None \<Longrightarrow> \<not> truthy_str (githubToken this) \<Longrightarrow>
   getAPI this = (Inl MissingApiToken, this)"
  by (cases "githubToken this") (simp_all add: getAPI_def)

text \<open>
  C8. The claim: the client is constructed at most once, and after the first successful
  \<open>getAPI\<close> every later call returns the same cached instance. The code on the adapter
  as its constructor leaves it, with the token \<open>token\<close>: the first call constructs client
  number 0 and stores nothing, and the second call, on the adapter the first one left,
  constructs client number 1.
\<close>

theorem getAPI_constructs_again:
  "getAPI demo_adapter =
     (Inr \<lparr>auth = ''token'', userAgent = ''Botkit'', object_id = 0\<rparr>,
      demo_adapter\<lparr>constructed := 1\<rparr>) \<and>
   getAPI (snd (getAPI demo_adapter)) =
     (Inr \<lparr>auth = ''token'', userAgent = ''Botkit'', object_id = 1\<rparr>,
      demo_adapter\<lparr>constructed := 2\<rparr>)"
  by (simp add: getAPI_def demo_adapter_def)

section \<open>Properties of sending\<close>

lemma send_one_sendable:
  assumes "octokit this = None" and "githubToken this = Some token" and "token \<noteq> []"
    and "sendable act" and "constructed this = first_id + k"
  shows "send_one createComment k this act =
           Inr (spec_record (api_answer createComment token first_id k act) act,
                spec_logged (api_answer createComment token first_id k act),
                this\<lparr>constructed := Suc (constructed this)\<rparr>)"
proof -
  from assms(4) obtain conv r where c: "conversation act = Some conv" and r: "repo conv = Some r"
    and m: "activity_type act = Message"
    and t: "conversationType conv = Some ''issue_comment'' \<or>
            conversationType conv = Some ''pull_request'' \<or>
            conversationType conv = Some ''issues''"
    by (auto simp add: sendable_def split: option.splits)
  show ?thesis
    using t assms(5)
    by (cases "api_answer createComment token first_id k act")
      (auto simp add: send_one_def send_try_def activityToGithub_def read_prop_def Let_def
        getAPI_fresh [OF assms(1,2,3)] c r m spec_record_def spec_logged_def api_answer_def
        create_params_def)
qed

lemma send_from_sendable:
  assumes "githubToken this = Some token" and "token \<noteq> []"
  shows "octokit this = None \<Longrightarrow> list_all sendable acts \<Longrightarrow> constructed this = first_id + k \<Longrightarrow>
   send_from createComment k acts (rs, ls, this) =
     Inr (rs @ concat (map (\<lambda>(a, act).
                          spec_record (api_answer createComment token first_id a act) act)
                         (enumerate k acts)),
          ls @ concat (map (\<lambda>(a, act).
                          spec_logged (api_answer createComment token first_id a act))
                         (enumerate k acts)),
          this\<lparr>constructed := constructed this + length acts\<rparr>)"
  using assms
proof (induction acts arbitrary: k rs ls this)
  case Nil
  then show ?case by simp
next
  case (Cons act acts)
  from Cons.prems have s: "sendable act" and rest: "list_all sendable acts" by simp_all
  let ?this' = "this\<lparr>constructed := Suc (constructed this)\<rparr>"
  have one: "send_one createComment k this act =
           Inr (spec_record (api_answer createComment token first_id k act) act,
                spec_logged (api_answer createComment token first_id k act), ?this')"
    using send_one_sendable [OF Cons.prems(1) Cons.prems(4) Cons.prems(5) s Cons.prems(3)] .
  have "octokit ?this' = None" "constructed ?this' = first_id + Suc k"
    "githubToken ?this' = Some token"
    using Cons.prems by simp_all
  from Cons.IH [OF this(1) rest this(2) this(3) Cons.prems(5)] one
  show ?case by simp
qed

text \<open>
  A batch of message-kind activities that each reach the API, whatever the API answers:
  the batch does not throw; the responses are, in order, one record
  \<open>{id, activityId, conversation}\<close> for every activity whose call returned a status
  below 300 and nothing for a call that was rejected or returned 300 or more; each of
  those failures is logged once; and the call for every activity of the batch is made,
  whatever the answers to the ones before it.
\<close>

lemma sendActivities_sendable_batch:
  assumes "octokit this = None" and "githubToken this = Some token" and "token \<noteq> []"
    and "list_all sendable activities"
  shows "sendActivities createComment this activities =
     Inr (concat (map (\<lambda>(a, act).
                     spec_record (api_answer createComment token (constructed this) a act) act)
                (enumerate 0 activities)),
          concat (map (\<lambda>(a, act).
                     spec_logged (api_answer createComment token (constructed this) a act))
                (enumerate 0 activities)),
          this\<lparr>constructed := constructed this + length activities\<rparr>)"
  using send_from_sendable [OF assms(2,3,1,4), of "constructed this" 0 createComment "[]" "[]"]
  by (simp add: sendActivities_def)

text \<open>
  Two replies, with different ids and into different issues; the first call fails and the
  second succeeds. The result is exactly one record, that of the second reply, and one
  logged error.
\<close>

lemma sendActivities_first_fails:
  "sendActivities first_fails demo_adapter
     [demo_reply_to 1 42 ''first'', demo_reply_to 2 43 ''second''] =
   Inr ([\<lparr>response_id = 555, response_activityId = Num 2,
          response_conversation =
            Some \<lparr>isGroup = Some True, conversationType = Some ''issue_comment'',
                  conversation_id = Num 43, repo = Some ''o/r''\<rparr>\<rparr>],
        [Console_error ''Error sending activity to API:'' (ApiError ''Server Error'')],
        demo_adapter\<lparr>constructed := 2\<rparr>)"
  using sendActivities_sendable_batch
    [of demo_adapter "''token''" "[demo_reply_to 1 42 ''first'', demo_reply_to 2 43 ''second'']"
        first_fails]
  by (simp add: demo_adapter_def sendable_def demo_reply_to_def first_fails_def spec_record_def
      spec_logged_def api_answer_def)

text \<open>
  Without a token every send of the batch fails inside the \<open>try\<close>: each is logged, none
  yields a record, and the batch goes on to its end.
\<close>

lemma sendActivities_no_token:
  "sendActivities api_created (demo_adapter\<lparr>githubToken := None\<rparr>)
     [demo_reply_to 1 42 ''first'', demo_reply_to 2 43 ''second''] =
   Inr ([],
        [Console_error ''Error sending activity to API:'' MissingApiToken,
         Console_error ''Error sending activity to API:'' MissingApiToken],
        demo_adapter\<lparr>githubToken := None\<rparr>)"
  by (simp add: sendActivities_def send_one_def send_try_def activityToGithub_def read_prop_def
      getAPI_def demo_adapter_def demo_reply_to_def index_def Let_def)

text \<open>
  What makes a batch throw is the mapper: \<open>activityToGithub\<close> is called before the
  \<open>try\<close>, and it throws on a conversation without \<open>repo\<close>.
\<close>

lemma activityToGithub_throws_iff:
  "(\<exists>err. activityToGithub act = Inl err) \<longleftrightarrow>
   (\<exists>conv. conversation act = Some conv \<and> repo conv = None)"
  by (auto simp add: activityToGithub_def read_prop_def Let_def split: option.splits)

lemma send_one_mapped:
  "activityToGithub act = Inr message \<Longrightarrow> \<exists>r. send_one createComment a this act = Inr r"
  by (cases "send_try createComment a this act message")
    (auto simp add: send_one_def split: sum.splits call_result.splits)

lemma send_one_throws_iff:
  "(\<exists>err. send_one createComment a this act = Inl err) \<longleftrightarrow>
   activity_type act = Message \<and> (\<exists>conv. conversation act = Some conv \<and> repo conv = None)"
proof (cases "activity_type act = Message")
  case False
  then show ?thesis by (simp add: send_one_def)
next
  case True
  show ?thesis
  proof (cases "activityToGithub act")
    case (Inl err)
    then have "send_one createComment a this act = Inl err"
      using True by (simp add: send_one_def)
    with Inl True activityToGithub_throws_iff [of act] show ?thesis by auto
  next
    case (Inr message)
    with send_one_mapped [OF Inr, of createComment a this] True
      activityToGithub_throws_iff [of act]
    show ?thesis by auto
  qed
qed


text \<open>A batch without such an activity does not throw.\<close>

lemma send_from_returns:
  "list_all (\<lambda>act. \<not> (activity_type act = Message \<and>
                        (\<exists>conv. conversation act = Some conv \<and> repo conv = None))) acts \<Longrightarrow>
   \<exists>r. send_from createComment k acts acc = Inr r"
proof (induction acts arbitrary: k acc)
  case Nil
  show ?case by (cases acc) auto
next
  case (Cons act acts)
  obtain rs ls this where acc: "acc = (rs, ls, this)"
    using prod_cases3 by blast
  from Cons.prems have "\<not> (\<exists>err. send_one createComment k this act = Inl err)"
    by (simp add: send_one_throws_iff)
  then obtain pushed logged this' where
    one: "send_one createComment k this act = Inr (pushed, logged, this')"
    by (cases "send_one createComment k this act") auto
  from Cons.prems have "list_all (\<lambda>act. \<not> (activity_type act = Message \<and>
      (\<exists>conv. conversation act = Some conv \<and> repo conv = None))) acts"
    by simp
  from Cons.IH [OF this, of "Suc k" "(rs @ pushed, ls @ logged, this')"] acc one
  show ?case by simp
qed

lemma sendActivities_returns:
  "list_all (\<lambda>act. \<not> (activity_type act = Message \<and>
                        (\<exists>conv. conversation act = Some conv \<and> repo conv = None))) activities \<Longrightarrow>
   \<exists>r. sendActivities createComment this activities = Inr r"
  using send_from_returns [of activities createComment 0 "([], [], this)"]
  by (simp only: sendActivities_def)

text \<open>
  C5. The claim: in a batch of message-kind activities each activity is attempted on its
  own, a failing send is logged and yields no record, a successful one yields its record,
  and one failing send does not keep the later activities from being attempted. The code
  on a batch of three replies while the API creates every comment it is asked for: the
  first and the third go into issues of \<open>o/r\<close>, the second into the conversation of an
  event activity, which has no \<open>repo\<close>. \<open>activityToGithub\<close> throws on the second reply,
  outside the \<open>try\<close>, and the error leaves \<open>sendActivities\<close>: the record of the first
  reply is lost and the third reply is never attempted.
\<close>

theorem sendActivities_aborts_on_missing_repo:
  "sendActivities api_created demo_adapter
     [demo_reply_to 1 42 ''first'', demo_event_reply, demo_reply_to 3 43 ''third''] =
   Inl (TypeError ''activity.conversation.repo'')"
  by (simp add: sendActivities_def send_one_def send_try_def activityToGithub_def read_prop_def
      getAPI_def demo_adapter_def demo_reply_to_def demo_event_reply_def api_created_def
      index_def Let_def)

text \<open>The same batch without the second reply returns the two records.\<close>

lemma sendActivities_without_event_reply:
  "sendActivities api_created demo_adapter
     [demo_reply_to 1 42 ''first'', demo_reply_to 3 43 ''third''] =
   Inr ([\<lparr>response_id = 500, response_activityId = Num 1,
          response_conversation = conversation (demo_reply_to 1 42 ''first'')\<rparr>,
         \<lparr>response_id = 501, response_activityId = Num 3,
          response_conversation = conversation (demo_reply_to 3 43 ''third'')\<rparr>],
        [], demo_adapter\<lparr>constructed := 2\<rparr>)"
  by (simp add: sendActivities_def send_one_def send_try_def activityToGithub_def read_prop_def
      getAPI_def demo_adapter_def demo_reply_to_def api_created_def index_def Let_def)

section \<open>Properties of updating and deleting\<close>

text \<open>
  \<open>updateActivity\<close> on an activity with an id and a conversation never throws, whatever
  the API does; a rejection of the API is logged.
\<close>

lemma updateActivity_never_throws:
  "truthy (activity_id act) \<Longrightarrow> conversation act \<noteq> None \<Longrightarrow>
   raised (updateActivity updateComment this act) = None"
  by (simp add: updateActivity_def split: sum.splits prod.splits)

lemma updateActivity_api_down:
  "updateActivity api_down demo_adapter (demo_reply ''edited'') =
     \<lparr>raised = None,
      console = [Console_error ''Error updating activity on Github:'' (ApiError ''Not Found'')],
      unhandled = [], adapter_then = demo_adapter\<lparr>constructed := 1\<rparr>\<rparr>"
  by (simp add: updateActivity_def update_try_def activityToGithub_def read_prop_def getAPI_def
      demo_adapter_def demo_reply_def api_down_def index_def Let_def)

text \<open>
  Whether \<open>deleteActivity\<close> throws, and what, does not depend on the API: the error it
  re-raises is one thrown before the call (no token, a conversation without \<open>repo\<close>).
\<close>

lemma deleteActivity_raised_whatever_api:
  "raised (deleteActivity deleteComment this act reference) =
   raised (deleteActivity deleteComment' this act reference)"
  by (auto simp add: deleteActivity_def delete_try_def Let_def split: sum.splits prod.splits)

lemma deleteActivity_missing_token:
  "deleteActivity api_down (demo_adapter\<lparr>githubToken := None\<rparr>) (demo_reply ''hello'')
     demo_reference =
     \<lparr>raised = Some MissingApiToken,
      console = [Console_error ''Error deleting activity'' MissingApiToken],
      unhandled = [], adapter_then = demo_adapter\<lparr>githubToken := None\<rparr>\<rparr>"
  by (simp add: deleteActivity_def delete_try_def getAPI_def demo_adapter_def demo_reference_def
      demo_reply_def)

text \<open>
  C6. The claim: an API failure during \<open>updateActivity\<close> is logged and not thrown, an API
  failure during \<open>deleteActivity\<close> is logged and re-raised to the caller. The code of
  \<open>deleteActivity\<close> on a reference with an \<open>activityId\<close> and a conversation, while the API
  rejects the call: the promise is not awaited, so \<open>deleteActivity\<close> prints the pending
  promise, reports it as an error because a promise has no \<open>status\<close>, and returns
  normally; the rejection is raised to nobody.
\<close>

theorem deleteActivity_api_failure_not_raised:
  "deleteActivity api_down demo_adapter (demo_reply ''hello'') demo_reference =
     \<lparr>raised = None,
      console =
        [Console_log (Pending (Rejected (ApiError ''Not Found''))),
         Console_error_result ''Error deleting activity:''
           (Pending (Rejected (ApiError ''Not Found'')))],
      unhandled = [ApiError ''Not Found''],
      adapter_then = demo_adapter\<lparr>constructed := 1\<rparr>\<rparr>"
  by (simp add: deleteActivity_def delete_try_def activityToGithub_def read_prop_def getAPI_def
      demo_adapter_def demo_reply_def demo_reference_def api_down_def index_def Let_def
      rejection_def)

section \<open>Properties of the message-type middleware\<close>

lemma canonicalize_w:
  "canonicalize c = canonicalize (CHR ''w'') \<longleftrightarrow> c = CHR ''w'' \<or> c = CHR ''W''"
proof -
  have w: "canonicalize (CHR ''w'') = 87" by (simp add: canonicalize_def)
  have "canonicalize c = 87 \<longleftrightarrow> (of_char c :: nat) = 119 \<or> (of_char c :: nat) = 87"
    by (auto simp add: canonicalize_def Let_def)
  also have "\<dots> \<longleftrightarrow>
      (of_char c :: nat) = of_char (CHR ''w'') \<or> (of_char c :: nat) = of_char (CHR ''W'')"
    by simp
  also have "\<dots> \<longleftrightarrow> c = CHR ''w'' \<or> c = CHR ''W''"
    by (simp only: of_char_eq_iff)
  finally show ?thesis by (simp only: w)
qed

lemma canonicalize_slash: "canonicalize (CHR ''/'') = canonicalize c \<longleftrightarrow> c = CHR ''/''"
proof -
  have s47: "canonicalize (CHR ''/'') = 47" by (simp add: canonicalize_def)
  have "canonicalize c = 47 \<longleftrightarrow> (of_char c :: nat) = 47"
    by (auto simp add: canonicalize_def Let_def)
  also have "\<dots> \<longleftrightarrow> (of_char c :: nat) = of_char (CHR ''/'')"
    by simp
  also have "\<dots> \<longleftrightarrow> c = CHR ''/''"
    by (simp only: of_char_eq_iff)
  finally show ?thesis by (auto simp only: s47)
qed

text \<open>The texts the slash-command pattern matches: those that start with \<open>/w\<close> or \<open>/W\<close>.\<close>

lemma match_slash_command_iff:
  "match_slash_command s \<longleftrightarrow> (\<exists>rest. s = ''/w'' @ rest \<or> s = ''/W'' @ rest)"
proof (cases s)
  case Nil
  then show ?thesis by (simp add: match_slash_command_def)
next
  case (Cons c cs)
  note s = this
  show ?thesis
  proof (cases cs)
    case Nil
    with s show ?thesis by (simp add: match_slash_command_def)
  next
    case (Cons d ds)
    with s canonicalize_slash [of c] canonicalize_w [of d] show ?thesis
      by (auto simp add: match_slash_command_def)
  qed
qed

text \<open>
  A text that matches neither mention pattern is classified by the slash-command pattern
  alone.
\<close>

lemma classify_no_mention:
  assumes "activity_text a = Some s" and "mention s = None" and "direct_mention s = None"
  shows "classify mention direct_mention bot_user cd a =
           (if match_slash_command s
            then a\<lparr>channelData := Some (tag ''slash_command'' cd),
                   activity_type := Event,
                   activity_text := Some (strip_slash s)\<rparr>
            else a)"
proof -
  have "s = [] \<Longrightarrow> \<not> match_slash_command s"
    by (simp add: match_slash_command_def)
  then show ?thesis
    using assms by (auto simp add: classify_def Let_def)
qed

text \<open>
  For a login of letters, digits and hyphens the middleware does not consult the engine.
\<close>

lemma message_onTurn_literal_login:
  assumes "bot_identity this = Some bot_user" and "literal_login (identity_login bot_user)"
  shows "message_onTurn RegExp g this a = message_onTurn RegExp' g this a"
  using assms
  by (simp add: message_onTurn_def getBotUserFromAPI_def mention_regexp_def
      direct_mention_regexp_def Let_def split: activity_type.splits option.splits)

text \<open>
  The login of the examples is a literal pattern. The other examples of the
  specification, and a text the slash-command pattern does match, on the adapter that has
  \<open>mybot\<close> cached.
\<close>

lemma mybot_literal: "literal_login (identity_login mybot)"
  by (simp add: literal_login_def literal_char_def mybot_def)

lemma message_onTurn_direct_mention:
  "message_onTurn RegExp g demo_adapter_cached (demo_message ''@MyBot: deploy now'') =
     (Inr ((demo_message ''deploy now'')
             \<lparr>channelData := Some ((demo_comment_event 9)\<lparr>botkitEventType := Some ''direct_mention''\<rparr>)\<rparr>),
      demo_adapter_cached)"
  by (simp add: message_onTurn_def getBotUserFromAPI_def classify_def demo_message_def
      demo_adapter_cached_def demo_adapter_def mybot_def tag_def strip_mention_def
      strip_space_def strip_colon_space_def white_space_def canonicalize_def Let_def
      mention_regexp_def direct_mention_regexp_def literal_login_def literal_char_def
      exec_start_def replace_first_def)

lemma message_onTurn_mention:
  "message_onTurn RegExp g demo_adapter_cached (demo_message ''please @mybot look'') =
     (Inr ((demo_message ''please @mybot look'')
             \<lparr>channelData := Some ((demo_comment_event 9)\<lparr>botkitEventType := Some ''mention''\<rparr>)\<rparr>),
      demo_adapter_cached)"
  by (simp add: message_onTurn_def getBotUserFromAPI_def classify_def demo_message_def
      demo_adapter_cached_def demo_adapter_def mybot_def tag_def canonicalize_def Let_def
      mention_regexp_def direct_mention_regexp_def literal_login_def literal_char_def
      exec_start_def)

lemma message_onTurn_slash_w:
  "message_onTurn RegExp g demo_adapter_cached (demo_message ''/www'') =
     (Inr ((demo_message ''/www'')
             \<lparr>channelData := Some ((demo_comment_event 9)\<lparr>botkitEventType := Some ''slash_command''\<rparr>),
              activity_type := Event, activity_text := Some ''www''\<rparr>),
      demo_adapter_cached)"
  by (simp add: message_onTurn_def getBotUserFromAPI_def classify_def demo_message_def
      demo_adapter_cached_def demo_adapter_def mybot_def match_slash_command_def tag_def
      strip_slash_def canonicalize_def Let_def
      mention_regexp_def direct_mention_regexp_def literal_login_def literal_char_def
      exec_start_def)

text \<open>
  C4. The claim: a message whose text starts with a slash and a word, and mentions the
  bot nowhere, is tagged \<open>slash_command\<close>, becomes event-kind and loses the slash; the
  text \<open>/release\<close> gives the tag \<open>slash_command\<close> and the text \<open>release\<close>. The code on the
  comment \<open>/release\<close>, with the bot \<open>mybot\<close>: the pattern asks for a \<open>w\<close> after the slash,
  nothing matches, and the activity goes on untouched: message-kind, untagged, with its
  slash.
\<close>

theorem message_onTurn_release_untouched:
  "message_onTurn RegExp g demo_adapter_cached (demo_message ''/release'') =
     (Inr (demo_message ''/release''), demo_adapter_cached)"
  by (simp add: message_onTurn_def getBotUserFromAPI_def classify_def demo_message_def
      demo_adapter_cached_def demo_adapter_def mybot_def match_slash_command_def
      canonicalize_def Let_def
      mention_regexp_def direct_mention_regexp_def literal_login_def literal_char_def
      exec_start_def)

section \<open>Properties of the event-type middleware\<close>

text \<open>
  C7. On an event-kind activity with a label, a payload and no \<open>slash_command\<close> tag, the
  tagger sets the tag to \<open>eventType_action\<close> when the payload has an action (a non-empty
  string) and to \<open>eventType\<close> otherwise. For a \<open>pull_request\<close> event with action
  \<open>opened\<close> (with a conversation and a repository, as \<open>processActivity\<close> builds it) the
  tag is \<open>pull_request_opened\<close>, the conversation becomes
  \<open>{isGroup: true, conversationType: "pull_request", id: channelData.number,
  repo: channelData.repository.full_name}\<close>, and nothing is thrown.
\<close>

theorem event_onTurn_composite_tag:
  assumes "activity_type a = Event" and "label a = Some eventType" and "eventType \<noteq> []"
    and "channelData a = Some cd" and "botkitEventType cd \<noteq> Some ''slash_command''"
  shows "(\<exists>cd'. channelData (fst (event_onTurn a)) = Some cd' \<and>
            botkitEventType cd' =
              Some (case action cd of
                      None \<Rightarrow> eventType
                    | Some act \<Rightarrow> if act = [] then eventType else eventType @ ''_'' @ act)) \<and>
         (eventType = ''pull_request'' \<and> action cd = Some ''opened'' \<and>
          conversation a = Some conv \<and> repository cd = Some r \<longrightarrow>
            event_onTurn a =
              (a\<lparr>channelData := Some (cd\<lparr>botkitEventType := Some ''pull_request_opened''\<rparr>),
                 conversation :=
                   Some \<lparr>isGroup = Some True, conversationType = Some ''pull_request'',
                         conversation_id = jsval_of_number (number cd),
                         repo = Some (full_name r)\<rparr>\<rparr>, None))"
  using assms
  by (auto simp add: event_onTurn_def composite_tag_def tag_def backfill_pull_request_def
      backfill_issues_def Let_def split: option.splits)

theorem event_onTurn_composite_tag_witness:
  "activity_type demo_pull_request_activity = Event \<and>
   label demo_pull_request_activity = Some ''pull_request'' \<and>
   channelData demo_pull_request_activity = Some demo_pull_request_event \<and>
   botkitEventType demo_pull_request_event \<noteq> Some ''slash_command'' \<and>
   event_onTurn demo_pull_request_activity =
     (demo_pull_request_activity
        \<lparr>channelData :=
           Some (demo_pull_request_event\<lparr>botkitEventType := Some ''pull_request_opened''\<rparr>),
         conversation :=
           Some \<lparr>isGroup = Some True, conversationType = Some ''pull_request'',
                 conversation_id = Num 17, repo = Some ''o/r''\<rparr>\<rparr>, None)"
  using event_onTurn_composite_tag
    [of demo_pull_request_activity "''pull_request''" demo_pull_request_event
        "\<lparr>isGroup = None, conversationType = None,
          conversation_id = Str ''72d3162e-cc78-11e3-81ab-4c9367dc0958'', repo = None\<rparr>"
        "\<lparr>full_name = ''o/r''\<rparr>"]
  by (simp add: demo_pull_request_activity_def demo_pull_request_event_def jsval_of_number_def)

end
